theory Spec2Isabelle
  imports Main "HOL-Library.Word"
begin

section \<open>Values, errors and the size constants\<close>

text \<open>
  The module \<open>nacl.secret\<close> is a facade over three collaborators that it imports:
  the primitive provider \<open>nacl.bindings\<close>, the encoders of \<open>nacl.encoding\<close> and
  \<open>random\<close> / \<open>EncryptedMessage\<close> of \<open>nacl.utils\<close>. The facade is embedded
  as written; the collaborators are parameters of the embedding.
\<close>

type_synonym byte = "8 word"
type_synonym bytes = "byte list"

text \<open>
  A Python value as \<open>isinstance(key, bytes)\<close> sees it: either a byte buffer, or
  something else (a text string, an integer, \<open>None\<close>).
\<close>

datatype pyval = PyBytes bytes | PyStr string | PyInt int | PyNone

text \<open>
  \<open>TypeError\<close> and \<open>ValueError\<close> are the two exceptions \<open>nacl.secret\<close> raises
  itself, each with its message. The specification names them by cause:
  \<open>InvalidKeyType\<close> is the \<open>TypeError\<close>, \<open>InvalidKeySize\<close> the \<open>ValueError\<close>
  with the key message, \<open>InvalidNonceSize\<close> the \<open>ValueError\<close> with the nonce
  message. \<open>AuthenticationFailure\<close> and \<open>EncodingError\<close> are raised by the
  collaborators and only pass through the facade; \<open>OtherError\<close> stands for any
  other exception of a collaborator.
\<close>

datatype error =
    TypeError string
  | ValueError string
  | AuthenticationFailure
  | EncodingError string
  | OtherError string

text \<open>Python's \<open>"%s" % n\<close> for a non-negative integer: its decimal digits.\<close>

fun str_nat :: "nat \<Rightarrow> string" where
  "str_nat n =
     (if n < 10 then [''0123456789'' ! n]
      else str_nat (n div 10) @ [''0123456789'' ! (n mod 10)])"

declare str_nat.simps [simp del]

definition key_size_message :: "nat \<Rightarrow> string" where
  "key_size_message n = ''The key must be exactly '' @ str_nat n @ '' bytes long''"

definition nonce_size_message :: "nat \<Rightarrow> string" where
  "nonce_size_message n = ''The nonce must be exactly '' @ str_nat n @ '' bytes long''"

text \<open>
  Modelled from the spec: the constants are read from \<open>nacl.bindings\<close>, a
  module that is not embedded here.
  The specification fixes the key size at 32 bytes and
  the nonce size at 24 bytes for both constructs, and the authentication tag at a fixed
  size; it is the 16 byte Poly1305 authenticator that the class documentation names.
\<close>

definition crypto_secretbox_KEYBYTES :: nat where
  "crypto_secretbox_KEYBYTES = 32"

definition crypto_secretbox_NONCEBYTES :: nat where
  "crypto_secretbox_NONCEBYTES = 24"

definition crypto_aead_xchacha20poly1305_ietf_KEYBYTES :: nat where
  "crypto_aead_xchacha20poly1305_ietf_KEYBYTES = 32"

definition crypto_aead_xchacha20poly1305_ietf_NPUBBYTES :: nat where
  "crypto_aead_xchacha20poly1305_ietf_NPUBBYTES = 24"


definition SecretBox_KEY_SIZE :: nat where
  "SecretBox_KEY_SIZE = crypto_secretbox_KEYBYTES"

definition SecretBox_NONCE_SIZE :: nat where
  "SecretBox_NONCE_SIZE = crypto_secretbox_NONCEBYTES"

definition Aead_KEY_SIZE :: nat where
  "Aead_KEY_SIZE = crypto_aead_xchacha20poly1305_ietf_KEYBYTES"

definition Aead_NONCE_SIZE :: nat where
  "Aead_NONCE_SIZE = crypto_aead_xchacha20poly1305_ietf_NPUBBYTES"


section \<open>The instances and their constructors\<close>

text \<open>
  An instance has one attribute, \<open>_key\<close> (the fields \<open>box_key\<close> and \<open>aead_key\<close>).
\<close>

record SecretBox =
  box_key :: bytes

record Aead =
  aead_key :: bytes

text \<open>
  \<open>__init__(self, key, encoder)\<close>: the first argument of the model is the
  \<open>decode\<close> of the constructor's encoder. \<open>RawEncoder.decode\<close> returns its argument
  as it is, whatever its type, hence a decoder yields a Python value. A decoder that
  raises makes the constructor raise the same exception.
\<close>

definition SecretBox_init :: "('k \<Rightarrow> error + pyval) \<Rightarrow> 'k \<Rightarrow> error + SecretBox" where
  "SecretBox_init decoder k =
     (case decoder k of
        Inl e \<Rightarrow> Inl e
      | Inr v \<Rightarrow>
          (case v of
             PyBytes bs \<Rightarrow>
               if length bs \<noteq> SecretBox_KEY_SIZE
               then Inl (ValueError (key_size_message SecretBox_KEY_SIZE))
               else Inr \<lparr>box_key = bs\<rparr>
           | _ \<Rightarrow> Inl (TypeError ''SecretBox must be created from 32 bytes'')))"

definition SecretBox_bytes :: "SecretBox \<Rightarrow> bytes" where
  "SecretBox_bytes self = box_key self"

definition Aead_init :: "('k \<Rightarrow> error + pyval) \<Rightarrow> 'k \<Rightarrow> error + Aead" where
  "Aead_init decoder k =
     (case decoder k of
        Inl e \<Rightarrow> Inl e
      | Inr v \<Rightarrow>
          (case v of
             PyBytes bs \<Rightarrow>
               if length bs \<noteq> Aead_KEY_SIZE
               then Inl (ValueError (key_size_message Aead_KEY_SIZE))
               else Inr \<lparr>aead_key = bs\<rparr>
           | _ \<Rightarrow> Inl (TypeError ''AEAD must be created from 32 bytes'')))"

definition Aead_bytes :: "Aead \<Rightarrow> bytes" where
  "Aead_bytes self = aead_key self"

text \<open>
  Modelled from the spec: \<open>RawEncoder\<close> of \<open>nacl.encoding\<close>, the default encoder, is
  not embedded here.
  It is the identity strategy; this is its \<open>decode\<close> on a key.
\<close>

definition RawEncoder_decode :: "pyval \<Rightarrow> error + pyval" where
  "RawEncoder_decode v = Inr v"

section \<open>The collaborators\<close>

text \<open>
  An encoder (\<open>nacl.encoding\<close>) as the methods use it: \<open>encode\<close> turns raw bytes
  into the caller's representation, \<open>decode\<close> turns it back or raises.
  The methods document their messages, nonces and associated data as \<open>bytes\<close>, and
  the model types them so.
\<close>

record 'e Encoder =
  encode :: "bytes \<Rightarrow> 'e"
  decode :: "'e \<Rightarrow> error + bytes"

text \<open>
  Modelled from the spec: \<open>RawEncoder\<close>, the default encoder, is the identity on raw
  bytes.
\<close>

definition RawEncoder :: "bytes Encoder" where
  "RawEncoder = \<lparr>encode = (\<lambda>b. b), decode = (\<lambda>b. Inr b)\<rparr>"

text \<open>
  Modelled from the spec: \<open>EncryptedMessage._from_parts\<close> of \<open>nacl.utils\<close> is
  not embedded here.
  The result value exposes the nonce, the ciphertext and the
  combined form, each as the encoder produced it.
\<close>

record 'e EncryptedMessage =
  nonce :: 'e
  ciphertext :: 'e
  combined :: 'e

definition EncryptedMessage_from_parts :: "'e \<Rightarrow> 'e \<Rightarrow> 'e \<Rightarrow> 'e EncryptedMessage" where
  "EncryptedMessage_from_parts n c nc = \<lparr>nonce = n, ciphertext = c, combined = nc\<rparr>"

text \<open>
  The primitive provider: the four functions of \<open>nacl.bindings\<close> that the facade calls,
  with the argument order of the calls. Each returns its bytes or raises.
\<close>

record provider =
  crypto_secretbox :: "bytes \<Rightarrow> bytes \<Rightarrow> bytes \<Rightarrow> error + bytes"
  crypto_secretbox_open :: "bytes \<Rightarrow> bytes \<Rightarrow> bytes \<Rightarrow> error + bytes"
  crypto_aead_xchacha20poly1305_ietf_encrypt ::
    "bytes \<Rightarrow> bytes \<Rightarrow> bytes \<Rightarrow> bytes \<Rightarrow> error + bytes"
  crypto_aead_xchacha20poly1305_ietf_decrypt ::
    "bytes \<Rightarrow> bytes \<Rightarrow> bytes \<Rightarrow> bytes \<Rightarrow> error + bytes"

text \<open>
  What lies outside the instance: the tape the random source reads from, and the log of
  the calls made to the random source and to the primitive provider, oldest first.
\<close>

datatype event =
    Call_random nat
  | Call_crypto_secretbox bytes bytes bytes
  | Call_crypto_secretbox_open bytes bytes bytes
  | Call_aead_encrypt bytes bytes bytes bytes
  | Call_aead_decrypt bytes bytes bytes bytes

record world =
  entropy :: "nat \<Rightarrow> byte"
  calls :: "event list"

text \<open>
  Modelled from the spec: \<open>random\<close> of \<open>nacl.utils\<close> is not embedded here.
  \<open>random(n)\<close> returns \<open>n\<close> bytes of the random source; the model reads the next
  \<open>n\<close> bytes of the tape and moves past them.
\<close>

definition random :: "nat \<Rightarrow> world \<Rightarrow> bytes \<times> world" where
  "random n w =
     (map (entropy w) [0..<n],
      w\<lparr>entropy := (\<lambda>i. entropy w (i + n)), calls := calls w @ [Call_random n]\<rparr>)"

definition call_crypto_secretbox ::
  "provider \<Rightarrow> bytes \<Rightarrow> bytes \<Rightarrow> bytes \<Rightarrow> world \<Rightarrow> (error + bytes) \<times> world" where
  "call_crypto_secretbox prov p n k w =
     (crypto_secretbox prov p n k, w\<lparr>calls := calls w @ [Call_crypto_secretbox p n k]\<rparr>)"

definition call_crypto_secretbox_open ::
  "provider \<Rightarrow> bytes \<Rightarrow> bytes \<Rightarrow> bytes \<Rightarrow> world \<Rightarrow> (error + bytes) \<times> world" where
  "call_crypto_secretbox_open prov c n k w =
     (crypto_secretbox_open prov c n k,
      w\<lparr>calls := calls w @ [Call_crypto_secretbox_open c n k]\<rparr>)"

definition call_aead_encrypt ::
  "provider \<Rightarrow> bytes \<Rightarrow> bytes \<Rightarrow> bytes \<Rightarrow> bytes \<Rightarrow> world \<Rightarrow> (error + bytes) \<times> world" where
  "call_aead_encrypt prov p a n k w =
     (crypto_aead_xchacha20poly1305_ietf_encrypt prov p a n k,
      w\<lparr>calls := calls w @ [Call_aead_encrypt p a n k]\<rparr>)"

definition call_aead_decrypt ::
  "provider \<Rightarrow> bytes \<Rightarrow> bytes \<Rightarrow> bytes \<Rightarrow> bytes \<Rightarrow> world \<Rightarrow> (error + bytes) \<times> world" where
  "call_aead_decrypt prov c a n k w =
     (crypto_aead_xchacha20poly1305_ietf_decrypt prov c a n k,
      w\<lparr>calls := calls w @ [Call_aead_decrypt c a n k]\<rparr>)"

section \<open>The methods\<close>

text \<open>
  Each method takes the instance and the world and returns its outcome (the value
  returned, or the exception raised), the instance and the world after the call.
  The nonce argument is \<open>None\<close> when the caller omits it.
\<close>

definition SecretBox_encrypt ::
  "provider \<Rightarrow> 'e Encoder \<Rightarrow> SecretBox \<Rightarrow> bytes \<Rightarrow> bytes option \<Rightarrow> world
     \<Rightarrow> (error + 'e EncryptedMessage) \<times> SecretBox \<times> world" where
  "SecretBox_encrypt prov encoder self plaintext nonce_arg w =
     (case (case nonce_arg of
              None \<Rightarrow> random SecretBox_NONCE_SIZE w
            | Some n \<Rightarrow> (n, w)) of
        (n, w1) \<Rightarrow>
          if length n \<noteq> SecretBox_NONCE_SIZE
          then (Inl (ValueError (nonce_size_message SecretBox_NONCE_SIZE)), self, w1)
          else
            (case call_crypto_secretbox prov plaintext n (box_key self) w1 of
               (Inl e, w2) \<Rightarrow> (Inl e, self, w2)
             | (Inr c, w2) \<Rightarrow>
                 (Inr (EncryptedMessage_from_parts
                         (encode encoder n) (encode encoder c) (encode encoder (n @ c))),
                  self, w2)))"

definition SecretBox_decrypt ::
  "provider \<Rightarrow> 'e Encoder \<Rightarrow> SecretBox \<Rightarrow> 'e \<Rightarrow> bytes option \<Rightarrow> world
     \<Rightarrow> (error + bytes) \<times> SecretBox \<times> world" where
  "SecretBox_decrypt prov encoder self ciphertext_arg nonce_arg w =
     (case decode encoder ciphertext_arg of
        Inl e \<Rightarrow> (Inl e, self, w)
      | Inr decoded \<Rightarrow>
          (case (case nonce_arg of
                   None \<Rightarrow> (take SecretBox_NONCE_SIZE decoded, drop SecretBox_NONCE_SIZE decoded)
                 | Some n \<Rightarrow> (n, decoded)) of
             (n, c) \<Rightarrow>
               if length n \<noteq> SecretBox_NONCE_SIZE
               then (Inl (ValueError (nonce_size_message SecretBox_NONCE_SIZE)), self, w)
               else
                 (case call_crypto_secretbox_open prov c n (box_key self) w of
                    (plaintext, w1) \<Rightarrow> (plaintext, self, w1))))"

definition Aead_encrypt ::
  "provider \<Rightarrow> 'e Encoder \<Rightarrow> Aead \<Rightarrow> bytes \<Rightarrow> bytes \<Rightarrow> bytes option \<Rightarrow> world
     \<Rightarrow> (error + 'e EncryptedMessage) \<times> Aead \<times> world" where
  "Aead_encrypt prov encoder self plaintext aad nonce_arg w =
     (case (case nonce_arg of
              None \<Rightarrow> random Aead_NONCE_SIZE w
            | Some n \<Rightarrow> (n, w)) of
        (n, w1) \<Rightarrow>
          if length n \<noteq> Aead_NONCE_SIZE
          then (Inl (ValueError (nonce_size_message Aead_NONCE_SIZE)), self, w1)
          else
            (case call_aead_encrypt prov plaintext aad n (aead_key self) w1 of
               (Inl e, w2) \<Rightarrow> (Inl e, self, w2)
             | (Inr c, w2) \<Rightarrow>
                 (Inr (EncryptedMessage_from_parts
                         (encode encoder n) (encode encoder c) (encode encoder (n @ c))),
                  self, w2)))"

definition Aead_decrypt ::
  "provider \<Rightarrow> 'e Encoder \<Rightarrow> Aead \<Rightarrow> 'e \<Rightarrow> bytes \<Rightarrow> bytes option \<Rightarrow> world
     \<Rightarrow> (error + bytes) \<times> Aead \<times> world" where
  "Aead_decrypt prov encoder self ciphertext_arg aad nonce_arg w =
     (case decode encoder ciphertext_arg of
        Inl e \<Rightarrow> (Inl e, self, w)
      | Inr decoded \<Rightarrow>
          (case (case nonce_arg of
                   None \<Rightarrow> (take Aead_NONCE_SIZE decoded, drop Aead_NONCE_SIZE decoded)
                 | Some n \<Rightarrow> (n, decoded)) of
             (n, c) \<Rightarrow>
               if length n \<noteq> Aead_NONCE_SIZE
               then (Inl (ValueError (nonce_size_message Aead_NONCE_SIZE)), self, w)
               else
                 (case call_aead_decrypt prov c aad n (aead_key self) w of
                    (plaintext, w1) \<Rightarrow> (plaintext, self, w1))))"


section \<open>Sequences of calls on one instance\<close>

text \<open>
  A caller makes any number of calls on an instance, one after the other, and may go on
  after a call that raised. Each call hands the instance and the world it leaves to the
  next one.
\<close>

datatype 'e SecretBox_call =
    Do_encrypt bytes "bytes option"
  | Do_decrypt 'e "bytes option"

datatype 'e Aead_call =
    Do_aead_encrypt bytes bytes "bytes option"
  | Do_aead_decrypt 'e bytes "bytes option"

fun SecretBox_calls ::
  "provider \<Rightarrow> 'e Encoder \<Rightarrow> 'e SecretBox_call list \<Rightarrow> SecretBox \<Rightarrow> world \<Rightarrow> SecretBox \<times> world" where
  "SecretBox_calls prov encoder [] self w = (self, w)"
| "SecretBox_calls prov encoder (Do_encrypt p n # cs) self w =
     SecretBox_calls prov encoder cs
       (fst (snd (SecretBox_encrypt prov encoder self p n w)))
       (snd (snd (SecretBox_encrypt prov encoder self p n w)))"
| "SecretBox_calls prov encoder (Do_decrypt c n # cs) self w =
     SecretBox_calls prov encoder cs
       (fst (snd (SecretBox_decrypt prov encoder self c n w)))
       (snd (snd (SecretBox_decrypt prov encoder self c n w)))"

fun Aead_calls ::
  "provider \<Rightarrow> 'e Encoder \<Rightarrow> 'e Aead_call list \<Rightarrow> Aead \<Rightarrow> world \<Rightarrow> Aead \<times> world" where
  "Aead_calls prov encoder [] self w = (self, w)"
| "Aead_calls prov encoder (Do_aead_encrypt p a n # cs) self w =
     Aead_calls prov encoder cs
       (fst (snd (Aead_encrypt prov encoder self p a n w)))
       (snd (snd (Aead_encrypt prov encoder self p a n w)))"
| "Aead_calls prov encoder (Do_aead_decrypt c a n # cs) self w =
     Aead_calls prov encoder cs
       (fst (snd (Aead_decrypt prov encoder self c a n w)))
       (snd (snd (Aead_decrypt prov encoder self c a n w)))"

section \<open>What the collaborators promise\<close>

text \<open>
  Modelled from the spec: the encoders of \<open>nacl.encoding\<close> are not embedded here.
  An encoding strategy is round-trip exact: decoding what it encoded gives the
  bytes back.
\<close>

definition encoder_roundtrip :: "'e Encoder \<Rightarrow> bool" where
  "encoder_roundtrip encoder \<longleftrightarrow> (\<forall>b. decode encoder (encode encoder b) = Inr b)"

text \<open>
  Modelled from the spec: the primitive provider \<open>nacl.bindings\<close> is not embedded here.
  Its decryption, given the key and the nonce (and, for the AEAD
  primitive, the associated data) of the encryption, returns the plaintext.
\<close>

definition secretbox_roundtrip :: "provider \<Rightarrow> bool" where
  "secretbox_roundtrip prov \<longleftrightarrow>
     (\<forall>p n k c. length n = crypto_secretbox_NONCEBYTES \<longrightarrow>
        length k = crypto_secretbox_KEYBYTES \<longrightarrow>
        crypto_secretbox prov p n k = Inr c \<longrightarrow>
        crypto_secretbox_open prov c n k = Inr p)"

definition aead_roundtrip :: "provider \<Rightarrow> bool" where
  "aead_roundtrip prov \<longleftrightarrow>
     (\<forall>p a n k c. length n = crypto_aead_xchacha20poly1305_ietf_NPUBBYTES \<longrightarrow>
        length k = crypto_aead_xchacha20poly1305_ietf_KEYBYTES \<longrightarrow>
        crypto_aead_xchacha20poly1305_ietf_encrypt prov p a n k = Inr c \<longrightarrow>
        crypto_aead_xchacha20poly1305_ietf_decrypt prov c a n k = Inr p)"


section \<open>An example provider\<close>

text \<open>
  A provider that keeps the promises above, to instantiate the theorems at concrete
  inputs. It is no cipher: its tag is the bytewise sum of nonce and key, cut to 16 bytes;
  its secret box puts the tag before the reversed plaintext; its AEAD ciphertext is the
  plaintext followed by the tag, each byte of which has the length and the sum of the
  associated data added.
\<close>

definition example_tag :: "bytes \<Rightarrow> bytes \<Rightarrow> bytes" where
  "example_tag n k = take 16 (map2 (+) n k)"

definition example_secretbox :: "bytes \<Rightarrow> bytes \<Rightarrow> bytes \<Rightarrow> error + bytes" where
  "example_secretbox p n k = Inr (example_tag n k @ rev p)"

definition example_secretbox_open :: "bytes \<Rightarrow> bytes \<Rightarrow> bytes \<Rightarrow> error + bytes" where
  "example_secretbox_open c n k =
     (if take (length (example_tag n k)) c = example_tag n k
      then Inr (rev (drop (length (example_tag n k)) c))
      else Inl AuthenticationFailure)"

definition example_aead_tag :: "bytes \<Rightarrow> bytes \<Rightarrow> bytes \<Rightarrow> bytes" where
  "example_aead_tag a n k = map (\<lambda>b. b + of_nat (length a) + sum_list a) (example_tag n k)"

definition example_aead_encrypt :: "bytes \<Rightarrow> bytes \<Rightarrow> bytes \<Rightarrow> bytes \<Rightarrow> error + bytes" where
  "example_aead_encrypt p a n k = Inr (p @ example_aead_tag a n k)"

definition example_aead_decrypt :: "bytes \<Rightarrow> bytes \<Rightarrow> bytes \<Rightarrow> bytes \<Rightarrow> error + bytes" where
  "example_aead_decrypt c a n k =
     (if length (example_aead_tag a n k) \<le> length c
         \<and> drop (length c - length (example_aead_tag a n k)) c = example_aead_tag a n k
      then Inr (take (length c - length (example_aead_tag a n k)) c)
      else Inl AuthenticationFailure)"

definition example_provider :: provider where
  "example_provider =
     \<lparr>crypto_secretbox = example_secretbox,
      crypto_secretbox_open = example_secretbox_open,
      crypto_aead_xchacha20poly1305_ietf_encrypt = example_aead_encrypt,
      crypto_aead_xchacha20poly1305_ietf_decrypt = example_aead_decrypt\<rparr>"

definition example_world :: world where
  "example_world = \<lparr>entropy = (\<lambda>i. of_nat (7 * i + 3)), calls = []\<rparr>"

text \<open>
  An encoder that marks what it encodes with a leading byte \<open>104\<close> and refuses to
  decode what does not carry the mark.
\<close>

definition example_encoder :: "bytes Encoder" where
  "example_encoder =
     \<lparr>encode = (\<lambda>b. 104 # b),
      decode = (\<lambda>e. case e of
                        [] \<Rightarrow> Inl (EncodingError ''no mark'')
                      | x # b \<Rightarrow> if x = 104 then Inr b else Inl (EncodingError ''no mark''))\<rparr>"

definition zero_key :: bytes where
  "zero_key = replicate 32 0"

definition zero_nonce :: bytes where
  "zero_nonce = replicate 24 0"

text \<open>The ASCII bytes of \<open>test message\<close> and of \<open>header\<close>.\<close>

definition test_message :: bytes where
  "test_message = [116, 101, 115, 116, 32, 109, 101, 115, 115, 97, 103, 101]"

definition header :: bytes where
  "header = [104, 101, 97, 100, 101, 114]"

section \<open>Basic facts\<close>

lemmas size_defs =
  SecretBox_KEY_SIZE_def SecretBox_NONCE_SIZE_def Aead_KEY_SIZE_def Aead_NONCE_SIZE_def
  crypto_secretbox_KEYBYTES_def crypto_secretbox_NONCEBYTES_def
  crypto_aead_xchacha20poly1305_ietf_KEYBYTES_def
  crypto_aead_xchacha20poly1305_ietf_NPUBBYTES_def

lemma str_nat_32: "str_nat 32 = ''32''"
  by (simp add: str_nat.simps)

lemma str_nat_24: "str_nat 24 = ''24''"
  by (simp add: str_nat.simps)

lemma key_size_message_32:
  "key_size_message 32 = ''The key must be exactly 32 bytes long''"
  by (simp add: key_size_message_def str_nat_32)

lemma nonce_size_message_24:
  "nonce_size_message 24 = ''The nonce must be exactly 24 bytes long''"
  by (simp add: nonce_size_message_def str_nat_24)

lemma example_provider_encrypts:
  "crypto_secretbox example_provider p n k = Inr (example_tag n k @ rev p)"
  "crypto_aead_xchacha20poly1305_ietf_encrypt example_provider p a n k =
     Inr (p @ example_aead_tag a n k)"
  by (simp_all add: example_provider_def example_secretbox_def example_aead_encrypt_def)

section \<open>The constructors\<close>

lemma SecretBox_init_bytes:
  "decoder k = Inr (PyBytes bs) \<Longrightarrow>
   SecretBox_init decoder k =
     (if length bs = 32 then Inr \<lparr>box_key = bs\<rparr>
      else Inl (ValueError ''The key must be exactly 32 bytes long''))"
  by (simp add: SecretBox_init_def size_defs key_size_message_32)

lemma SecretBox_init_other:
  "decoder k = Inr v \<Longrightarrow> \<forall>bs. v \<noteq> PyBytes bs \<Longrightarrow>
   SecretBox_init decoder k = Inl (TypeError ''SecretBox must be created from 32 bytes'')"
  by (cases v) (simp_all add: SecretBox_init_def)

lemma Aead_init_bytes:
  "decoder k = Inr (PyBytes bs) \<Longrightarrow>
   Aead_init decoder k =
     (if length bs = 32 then Inr \<lparr>aead_key = bs\<rparr>
      else Inl (ValueError ''The key must be exactly 32 bytes long''))"
  by (simp add: Aead_init_def size_defs key_size_message_32)

lemma Aead_init_other:
  "decoder k = Inr v \<Longrightarrow> \<forall>bs. v \<noteq> PyBytes bs \<Longrightarrow>
   Aead_init decoder k = Inl (TypeError ''AEAD must be created from 32 bytes'')"
  by (cases v) (simp_all add: Aead_init_def)

lemma SecretBox_init_key_length:
  "SecretBox_init decoder k = Inr self \<Longrightarrow> length (box_key self) = 32"
  by (auto simp: SecretBox_init_def size_defs split: sum.splits pyval.splits if_splits)

lemma Aead_init_key_length:
  "Aead_init decoder k = Inr self \<Longrightarrow> length (aead_key self) = 32"
  by (auto simp: Aead_init_def size_defs split: sum.splits pyval.splits if_splits)

text \<open>
  Claim C5. Whatever the key argument: when the decoded key is not a byte buffer the
  constructors of \<open>SecretBox\<close> and \<open>Aead\<close> raise the \<open>TypeError\<close>
  (\<open>InvalidKeyType\<close>); when it is a byte buffer whose length is not 32 they raise the
  \<open>ValueError\<close> with the key message (\<open>InvalidKeySize\<close>); otherwise they succeed, and
  the instance holds the raw key bytes and nothing else.
\<close>

theorem constructor_contract:
  assumes "decoder k = Inr v"
  shows "((\<forall>bs. v \<noteq> PyBytes bs) \<longrightarrow>
            SecretBox_init decoder k = Inl (TypeError ''SecretBox must be created from 32 bytes'')
          \<and> Aead_init decoder k = Inl (TypeError ''AEAD must be created from 32 bytes''))
       \<and> (\<forall>bs. v = PyBytes bs \<and> length bs \<noteq> 32 \<longrightarrow>
            SecretBox_init decoder k = Inl (ValueError ''The key must be exactly 32 bytes long'')
          \<and> Aead_init decoder k = Inl (ValueError ''The key must be exactly 32 bytes long''))
       \<and> (\<forall>bs. v = PyBytes bs \<and> length bs = 32 \<longrightarrow>
            SecretBox_init decoder k = Inr \<lparr>box_key = bs\<rparr>
          \<and> SecretBox_bytes \<lparr>box_key = bs\<rparr> = bs
          \<and> Aead_init decoder k = Inr \<lparr>aead_key = bs\<rparr>
          \<and> Aead_bytes \<lparr>aead_key = bs\<rparr> = bs)"
  using assms
  by (simp add: SecretBox_init_bytes Aead_init_bytes SecretBox_init_other Aead_init_other
      SecretBox_bytes_def Aead_bytes_def)

theorem constructor_contract_witness:
  "SecretBox_init RawEncoder_decode (PyStr ''key'') =
     Inl (TypeError ''SecretBox must be created from 32 bytes'')
   \<and> Aead_init RawEncoder_decode (PyStr ''key'') =
     Inl (TypeError ''AEAD must be created from 32 bytes'')
   \<and> SecretBox_init RawEncoder_decode (PyBytes [1, 2, 3]) =
     Inl (ValueError ''The key must be exactly 32 bytes long'')
   \<and> Aead_init RawEncoder_decode (PyBytes [1, 2, 3]) =
     Inl (ValueError ''The key must be exactly 32 bytes long'')
   \<and> SecretBox_init RawEncoder_decode (PyBytes zero_key) = Inr \<lparr>box_key = zero_key\<rparr>
   \<and> Aead_init RawEncoder_decode (PyBytes zero_key) = Inr \<lparr>aead_key = zero_key\<rparr>"
  using constructor_contract [of RawEncoder_decode "PyStr ''key''" "PyStr ''key''"]
    constructor_contract [of RawEncoder_decode "PyBytes [1, 2, 3]" "PyBytes [1, 2, 3]"]
    constructor_contract [of RawEncoder_decode "PyBytes zero_key" "PyBytes zero_key"]
  by (simp add: RawEncoder_decode_def zero_key_def)

section \<open>The methods, case by case\<close>

lemma length_random: "length (fst (random n w)) = n"
  by (simp add: random_def)

lemma calls_random: "calls (snd (random n w)) = calls w @ [Call_random n]"
  by (simp add: random_def)

lemma SecretBox_encrypt_Some:
  "SecretBox_encrypt prov encoder self p (Some n) w =
     (if length n \<noteq> 24
      then (Inl (ValueError ''The nonce must be exactly 24 bytes long''), self, w)
      else
        (case crypto_secretbox prov p n (box_key self) of
           Inl e \<Rightarrow> (Inl e, self, w\<lparr>calls := calls w @ [Call_crypto_secretbox p n (box_key self)]\<rparr>)
         | Inr c \<Rightarrow>
             (Inr \<lparr>nonce = encode encoder n, ciphertext = encode encoder c,
                   combined = encode encoder (n @ c)\<rparr>,
              self, w\<lparr>calls := calls w @ [Call_crypto_secretbox p n (box_key self)]\<rparr>)))"
  by (simp add: SecretBox_encrypt_def call_crypto_secretbox_def EncryptedMessage_from_parts_def
      size_defs nonce_size_message_24 split: sum.splits)

lemma SecretBox_encrypt_None:
  "SecretBox_encrypt prov encoder self p None w =
     SecretBox_encrypt prov encoder self p (Some (fst (random 24 w))) (snd (random 24 w))"
  by (simp add: SecretBox_encrypt_def size_defs split: prod.splits)

lemma Aead_encrypt_Some:
  "Aead_encrypt prov encoder self p a (Some n) w =
     (if length n \<noteq> 24
      then (Inl (ValueError ''The nonce must be exactly 24 bytes long''), self, w)
      else
        (case crypto_aead_xchacha20poly1305_ietf_encrypt prov p a n (aead_key self) of
           Inl e \<Rightarrow> (Inl e, self, w\<lparr>calls := calls w @ [Call_aead_encrypt p a n (aead_key self)]\<rparr>)
         | Inr c \<Rightarrow>
             (Inr \<lparr>nonce = encode encoder n, ciphertext = encode encoder c,
                   combined = encode encoder (n @ c)\<rparr>,
              self, w\<lparr>calls := calls w @ [Call_aead_encrypt p a n (aead_key self)]\<rparr>)))"
  by (simp add: Aead_encrypt_def call_aead_encrypt_def EncryptedMessage_from_parts_def
      size_defs nonce_size_message_24 split: sum.splits)

lemma Aead_encrypt_None:
  "Aead_encrypt prov encoder self p a None w =
     Aead_encrypt prov encoder self p a (Some (fst (random 24 w))) (snd (random 24 w))"
  by (simp add: Aead_encrypt_def size_defs split: prod.splits)

lemma SecretBox_decrypt_raises:
  "decode encoder c = Inl e \<Longrightarrow> SecretBox_decrypt prov encoder self c na w = (Inl e, self, w)"
  by (simp add: SecretBox_decrypt_def)

lemma SecretBox_decrypt_Some:
  "decode encoder c = Inr d \<Longrightarrow>
   SecretBox_decrypt prov encoder self c (Some n) w =
     (if length n \<noteq> 24
      then (Inl (ValueError ''The nonce must be exactly 24 bytes long''), self, w)
      else (crypto_secretbox_open prov d n (box_key self), self,
            w\<lparr>calls := calls w @ [Call_crypto_secretbox_open d n (box_key self)]\<rparr>))"
  by (simp add: SecretBox_decrypt_def call_crypto_secretbox_open_def size_defs
      nonce_size_message_24)

lemma SecretBox_decrypt_None:
  "decode encoder c = Inr d \<Longrightarrow>
   SecretBox_decrypt prov encoder self c None w =
     (if length (take 24 d) \<noteq> 24
      then (Inl (ValueError ''The nonce must be exactly 24 bytes long''), self, w)
      else (crypto_secretbox_open prov (drop 24 d) (take 24 d) (box_key self), self,
            w\<lparr>calls := calls w @
                 [Call_crypto_secretbox_open (drop 24 d) (take 24 d) (box_key self)]\<rparr>))"
  by (simp add: SecretBox_decrypt_def call_crypto_secretbox_open_def size_defs
      nonce_size_message_24)

lemma Aead_decrypt_raises:
  "decode encoder c = Inl e \<Longrightarrow> Aead_decrypt prov encoder self c a na w = (Inl e, self, w)"
  by (simp add: Aead_decrypt_def)

lemma Aead_decrypt_Some:
  "decode encoder c = Inr d \<Longrightarrow>
   Aead_decrypt prov encoder self c a (Some n) w =
     (if length n \<noteq> 24
      then (Inl (ValueError ''The nonce must be exactly 24 bytes long''), self, w)
      else (crypto_aead_xchacha20poly1305_ietf_decrypt prov d a n (aead_key self), self,
            w\<lparr>calls := calls w @ [Call_aead_decrypt d a n (aead_key self)]\<rparr>))"
  by (simp add: Aead_decrypt_def call_aead_decrypt_def size_defs nonce_size_message_24)

lemma Aead_decrypt_None:
  "decode encoder c = Inr d \<Longrightarrow>
   Aead_decrypt prov encoder self c a None w =
     (if length (take 24 d) \<noteq> 24
      then (Inl (ValueError ''The nonce must be exactly 24 bytes long''), self, w)
      else (crypto_aead_xchacha20poly1305_ietf_decrypt prov (drop 24 d) a (take 24 d)
              (aead_key self), self,
            w\<lparr>calls := calls w @
                 [Call_aead_decrypt (drop 24 d) a (take 24 d) (aead_key self)]\<rparr>))"
  by (simp add: Aead_decrypt_def call_aead_decrypt_def size_defs nonce_size_message_24)

section \<open>The instance is never written\<close>

text \<open>The instance after a call is the instance before it.\<close>

lemma SecretBox_encrypt_self: "fst (snd (SecretBox_encrypt prov encoder self p na w)) = self"
  by (cases na) (simp_all add: SecretBox_encrypt_None SecretBox_encrypt_Some split: sum.splits)

lemma SecretBox_decrypt_self: "fst (snd (SecretBox_decrypt prov encoder self c na w)) = self"
  by (cases "decode encoder c"; cases na)
     (simp_all add: SecretBox_decrypt_raises SecretBox_decrypt_Some SecretBox_decrypt_None)

lemma Aead_encrypt_self: "fst (snd (Aead_encrypt prov encoder self p a na w)) = self"
  by (cases na) (simp_all add: Aead_encrypt_None Aead_encrypt_Some split: sum.splits)

lemma Aead_decrypt_self: "fst (snd (Aead_decrypt prov encoder self c a na w)) = self"
  by (cases "decode encoder c"; cases na)
     (simp_all add: Aead_decrypt_raises Aead_decrypt_Some Aead_decrypt_None)

lemma SecretBox_calls_self: "fst (SecretBox_calls prov encoder cs self w) = self"
proof (induction cs arbitrary: self w)
  case Nil
  show ?case by simp
next
  case (Cons c cs)
  show ?case
  proof (cases c)
    case (Do_encrypt p na)
    then show ?thesis by (simp add: Cons.IH SecretBox_encrypt_self)
  next
    case (Do_decrypt ct na)
    then show ?thesis by (simp add: Cons.IH SecretBox_decrypt_self)
  qed
qed

lemma Aead_calls_self: "fst (Aead_calls prov encoder cs self w) = self"
proof (induction cs arbitrary: self w)
  case Nil
  show ?case by simp
next
  case (Cons c cs)
  show ?case
  proof (cases c)
    case (Do_aead_encrypt p a na)
    then show ?thesis by (simp add: Cons.IH Aead_encrypt_self)
  next
    case (Do_aead_decrypt ct a na)
    then show ?thesis by (simp add: Cons.IH Aead_decrypt_self)
  qed
qed

text \<open>
  Claim C9. The key stored by the constructor is never changed afterwards: after every
  call of \<open>encrypt\<close> or \<open>decrypt\<close>, and after every sequence of such calls, on a
  \<open>SecretBox\<close> or an \<open>Aead\<close>, the instance is the instance before the call, so
  \<open>__bytes__\<close> returns the same key and no other attribute has been written.
\<close>

theorem key_never_mutated:
  "fst (snd (SecretBox_encrypt prov encoder self p na w)) = self
   \<and> fst (snd (SecretBox_decrypt prov encoder self c na w)) = self
   \<and> fst (snd (Aead_encrypt prov encoder aself p a na w)) = aself
   \<and> fst (snd (Aead_decrypt prov encoder aself c a na w)) = aself
   \<and> fst (SecretBox_calls prov encoder cs self w) = self
   \<and> SecretBox_bytes (fst (SecretBox_calls prov encoder cs self w)) = SecretBox_bytes self
   \<and> fst (Aead_calls prov encoder acs aself w) = aself
   \<and> Aead_bytes (fst (Aead_calls prov encoder acs aself w)) = Aead_bytes aself"
  by (simp add: SecretBox_encrypt_self SecretBox_decrypt_self Aead_encrypt_self
      Aead_decrypt_self SecretBox_calls_self Aead_calls_self)

section \<open>The nonce check\<close>

text \<open>
  Claim C6. An explicitly supplied nonce whose length is not the nonce size makes
  \<open>encrypt\<close> and \<open>decrypt\<close>, of \<open>SecretBox\<close> and of \<open>Aead\<close>, raise the
  \<open>ValueError\<close> with the nonce message (\<open>InvalidNonceSize\<close>) and leave the world as
  it was: neither the primitive provider nor the random source has been called. A nonce of
  exactly the nonce size passes the check: the primitive provider is called with it, once,
  and the outcome of the method is what that call gives, for \<open>encrypt\<close> the message
  made of the nonce and the primitive's ciphertext. In \<open>decrypt\<close> the check comes after
  the decoding of the ciphertext: for an input \<open>c\<close> that decodes to \<open>d\<close> the above
  holds, and for an input \<open>c'\<close> on which the decoder raises, the decoder's exception is
  what \<open>decrypt\<close> raises, whatever the length of the nonce.
\<close>

theorem nonce_size_enforced:
  assumes "decode encoder c = Inr d"
  shows "(length n \<noteq> SecretBox_NONCE_SIZE \<longrightarrow>
            SecretBox_encrypt prov encoder self p (Some n) w =
              (Inl (ValueError ''The nonce must be exactly 24 bytes long''), self, w)
          \<and> SecretBox_decrypt prov encoder self c (Some n) w =
              (Inl (ValueError ''The nonce must be exactly 24 bytes long''), self, w))
       \<and> (length n \<noteq> Aead_NONCE_SIZE \<longrightarrow>
            Aead_encrypt prov encoder aself p a (Some n) w =
              (Inl (ValueError ''The nonce must be exactly 24 bytes long''), aself, w)
          \<and> Aead_decrypt prov encoder aself c a (Some n) w =
              (Inl (ValueError ''The nonce must be exactly 24 bytes long''), aself, w))
       \<and> (length n = SecretBox_NONCE_SIZE \<longrightarrow>
            calls (snd (snd (SecretBox_encrypt prov encoder self p (Some n) w))) =
              calls w @ [Call_crypto_secretbox p n (box_key self)]
          \<and> SecretBox_decrypt prov encoder self c (Some n) w =
              (crypto_secretbox_open prov d n (box_key self), self,
               w\<lparr>calls := calls w @ [Call_crypto_secretbox_open d n (box_key self)]\<rparr>)
          \<and> SecretBox_encrypt prov encoder self p (Some n) w =
              (case crypto_secretbox prov p n (box_key self) of
                 Inl e \<Rightarrow> Inl e
               | Inr ct \<Rightarrow>
                   Inr \<lparr>nonce = encode encoder n, ciphertext = encode encoder ct,
                        combined = encode encoder (n @ ct)\<rparr>,
               self, w\<lparr>calls := calls w @ [Call_crypto_secretbox p n (box_key self)]\<rparr>))
       \<and> (length n = Aead_NONCE_SIZE \<longrightarrow>
            calls (snd (snd (Aead_encrypt prov encoder aself p a (Some n) w))) =
              calls w @ [Call_aead_encrypt p a n (aead_key aself)]
          \<and> Aead_decrypt prov encoder aself c a (Some n) w =
              (crypto_aead_xchacha20poly1305_ietf_decrypt prov d a n (aead_key aself), aself,
               w\<lparr>calls := calls w @ [Call_aead_decrypt d a n (aead_key aself)]\<rparr>)
          \<and> Aead_encrypt prov encoder aself p a (Some n) w =
              (case crypto_aead_xchacha20poly1305_ietf_encrypt prov p a n (aead_key aself) of
                 Inl e \<Rightarrow> Inl e
               | Inr ct \<Rightarrow>
                   Inr \<lparr>nonce = encode encoder n, ciphertext = encode encoder ct,
                        combined = encode encoder (n @ ct)\<rparr>,
               aself, w\<lparr>calls := calls w @ [Call_aead_encrypt p a n (aead_key aself)]\<rparr>))
       \<and> (decode encoder c' = Inl err \<longrightarrow>
            SecretBox_decrypt prov encoder self c' (Some n) w = (Inl err, self, w)
          \<and> Aead_decrypt prov encoder aself c' a (Some n) w = (Inl err, aself, w))"
  using assms
  by (simp add: SecretBox_encrypt_Some SecretBox_decrypt_Some Aead_encrypt_Some
      Aead_decrypt_Some SecretBox_decrypt_raises Aead_decrypt_raises size_defs
      split: sum.splits)

lemma example_encoder_refuses: "decode example_encoder [] = Inl (EncodingError ''no mark'')"
  by (simp add: example_encoder_def)

lemma example_encoder_decodes: "decode example_encoder (104 # b) = Inr b"
  by (simp add: example_encoder_def)

lemma short_nonce_sizes:
  "length [1, 2, 3 :: byte] \<noteq> SecretBox_NONCE_SIZE" "length [1, 2, 3 :: byte] \<noteq> Aead_NONCE_SIZE"
  "length zero_nonce = SecretBox_NONCE_SIZE" "length zero_nonce = Aead_NONCE_SIZE"
  by (simp_all add: size_defs zero_nonce_def)

theorem nonce_size_enforced_witness:
  "fst (SecretBox_encrypt example_provider example_encoder \<lparr>box_key = zero_key\<rparr> test_message
          (Some [1, 2, 3]) example_world) =
     Inl (ValueError ''The nonce must be exactly 24 bytes long'')
   \<and> fst (SecretBox_decrypt example_provider example_encoder \<lparr>box_key = zero_key\<rparr>
          (104 # test_message) (Some [1, 2, 3]) example_world) =
     Inl (ValueError ''The nonce must be exactly 24 bytes long'')
   \<and> fst (Aead_encrypt example_provider example_encoder \<lparr>aead_key = zero_key\<rparr> test_message
          header (Some [1, 2, 3]) example_world) =
     Inl (ValueError ''The nonce must be exactly 24 bytes long'')
   \<and> fst (Aead_decrypt example_provider example_encoder \<lparr>aead_key = zero_key\<rparr>
          (104 # test_message) header (Some [1, 2, 3]) example_world) =
     Inl (ValueError ''The nonce must be exactly 24 bytes long'')
   \<and> SecretBox_decrypt example_provider example_encoder \<lparr>box_key = zero_key\<rparr> []
          (Some [1, 2, 3]) example_world =
     (Inl (EncodingError ''no mark''), \<lparr>box_key = zero_key\<rparr>, example_world)
   \<and> Aead_decrypt example_provider example_encoder \<lparr>aead_key = zero_key\<rparr> [] header
          (Some [1, 2, 3]) example_world =
     (Inl (EncodingError ''no mark''), \<lparr>aead_key = zero_key\<rparr>, example_world)
   \<and> fst (SecretBox_encrypt example_provider example_encoder \<lparr>box_key = zero_key\<rparr> test_message
          (Some zero_nonce) example_world) =
     Inr \<lparr>nonce = 104 # zero_nonce,
          ciphertext = 104 # example_tag zero_nonce zero_key @ rev test_message,
          combined = 104 # zero_nonce @ example_tag zero_nonce zero_key @ rev test_message\<rparr>
   \<and> calls (snd (snd (SecretBox_encrypt example_provider example_encoder \<lparr>box_key = zero_key\<rparr>
          test_message (Some zero_nonce) example_world))) =
     calls example_world @ [Call_crypto_secretbox test_message zero_nonce zero_key]
   \<and> calls (snd (snd (SecretBox_decrypt example_provider example_encoder \<lparr>box_key = zero_key\<rparr>
          (104 # test_message) (Some zero_nonce) example_world))) =
     calls example_world @ [Call_crypto_secretbox_open test_message zero_nonce zero_key]
   \<and> fst (Aead_encrypt example_provider example_encoder \<lparr>aead_key = zero_key\<rparr> test_message
          header (Some zero_nonce) example_world) =
     Inr \<lparr>nonce = 104 # zero_nonce,
          ciphertext = 104 # test_message @ example_aead_tag header zero_nonce zero_key,
          combined =
            104 # zero_nonce @ test_message @ example_aead_tag header zero_nonce zero_key\<rparr>
   \<and> calls (snd (snd (Aead_encrypt example_provider example_encoder \<lparr>aead_key = zero_key\<rparr>
          test_message header (Some zero_nonce) example_world))) =
     calls example_world @ [Call_aead_encrypt test_message header zero_nonce zero_key]
   \<and> calls (snd (snd (Aead_decrypt example_provider example_encoder \<lparr>aead_key = zero_key\<rparr>
          (104 # test_message) header (Some zero_nonce) example_world))) =
     calls example_world @ [Call_aead_decrypt test_message header zero_nonce zero_key]"
  using nonce_size_enforced [where encoder = example_encoder and c = "104 # test_message"
      and d = test_message and n = "[1, 2, 3]" and prov = example_provider
      and self = "\<lparr>box_key = zero_key\<rparr>" and p = test_message and w = example_world
      and aself = "\<lparr>aead_key = zero_key\<rparr>" and a = header and c' = "[]"
      and err = "EncodingError ''no mark''", OF example_encoder_decodes]
    nonce_size_enforced [where encoder = example_encoder and c = "104 # test_message"
      and d = test_message and n = zero_nonce and prov = example_provider
      and self = "\<lparr>box_key = zero_key\<rparr>" and p = test_message and w = example_world
      and aself = "\<lparr>aead_key = zero_key\<rparr>" and a = header and c' = "[]"
      and err = "EncodingError ''no mark''", OF example_encoder_decodes]
    short_nonce_sizes example_encoder_refuses example_provider_encrypts
  by (simp add: example_encoder_def)

text \<open>A decoder that raises is heard before the nonce is looked at, given or not.\<close>

lemma decrypt_decoding_comes_first:
  assumes "decode encoder c = Inl e"
  shows "SecretBox_decrypt prov encoder self c na w = (Inl e, self, w)"
    and "Aead_decrypt prov encoder aself c a na w = (Inl e, aself, w)"
  using assms by (simp_all add: SecretBox_decrypt_raises Aead_decrypt_raises)

text \<open>
  Claim C10. When \<open>decrypt\<close> is called without a nonce and the decoded input \<open>d\<close> is
  shorter than the nonce size, the slice taken as the nonce is all of \<open>d\<close>, and the call
  raises the \<open>ValueError\<close> with the nonce message, the world left as it was: the
  primitive provider has not been called. When \<open>d\<close> has exactly the nonce size, the
  check passes and the primitive is called with the empty ciphertext and \<open>d\<close> as the
  nonce.
\<close>

theorem short_combined_input:
  assumes "decode encoder c = Inr d"
  shows "(length d < SecretBox_NONCE_SIZE \<longrightarrow>
            take SecretBox_NONCE_SIZE d = d
          \<and> SecretBox_decrypt prov encoder self c None w =
              (Inl (ValueError ''The nonce must be exactly 24 bytes long''), self, w))
       \<and> (length d < Aead_NONCE_SIZE \<longrightarrow>
            take Aead_NONCE_SIZE d = d
          \<and> Aead_decrypt prov encoder aself c a None w =
              (Inl (ValueError ''The nonce must be exactly 24 bytes long''), aself, w))
       \<and> (length d = SecretBox_NONCE_SIZE \<longrightarrow>
            SecretBox_decrypt prov encoder self c None w =
              (crypto_secretbox_open prov [] d (box_key self), self,
               w\<lparr>calls := calls w @ [Call_crypto_secretbox_open [] d (box_key self)]\<rparr>))
       \<and> (length d = Aead_NONCE_SIZE \<longrightarrow>
            Aead_decrypt prov encoder aself c a None w =
              (crypto_aead_xchacha20poly1305_ietf_decrypt prov [] a d (aead_key aself), aself,
               w\<lparr>calls := calls w @ [Call_aead_decrypt [] a d (aead_key aself)]\<rparr>))"
  using assms
  by (simp add: SecretBox_decrypt_None Aead_decrypt_None size_defs)

theorem short_combined_input_witness:
  "SecretBox_decrypt example_provider RawEncoder \<lparr>box_key = zero_key\<rparr> [1, 2, 3] None
       example_world =
     (Inl (ValueError ''The nonce must be exactly 24 bytes long''), \<lparr>box_key = zero_key\<rparr>,
      example_world)
   \<and> Aead_decrypt example_provider RawEncoder \<lparr>aead_key = zero_key\<rparr> [1, 2, 3] header None
       example_world =
     (Inl (ValueError ''The nonce must be exactly 24 bytes long''), \<lparr>aead_key = zero_key\<rparr>,
      example_world)
   \<and> calls (snd (snd (SecretBox_decrypt example_provider RawEncoder \<lparr>box_key = zero_key\<rparr>
          zero_nonce None example_world))) =
     [Call_crypto_secretbox_open [] zero_nonce zero_key]
   \<and> calls (snd (snd (Aead_decrypt example_provider RawEncoder \<lparr>aead_key = zero_key\<rparr>
          zero_nonce header None example_world))) =
     [Call_aead_decrypt [] header zero_nonce zero_key]"
  using short_combined_input [of RawEncoder "[1, 2, 3]" "[1, 2, 3]" example_provider
      "\<lparr>box_key = zero_key\<rparr>" example_world "\<lparr>aead_key = zero_key\<rparr>" header]
    short_combined_input [of RawEncoder zero_nonce zero_nonce example_provider
      "\<lparr>box_key = zero_key\<rparr>" example_world "\<lparr>aead_key = zero_key\<rparr>" header]
  by (simp add: RawEncoder_def size_defs zero_nonce_def example_world_def)

section \<open>The nonce of an encryption\<close>

lemma SecretBox_encrypt_calls_None:
  "calls (snd (snd (SecretBox_encrypt prov encoder self p None w))) =
     calls w @ [Call_random 24,
                Call_crypto_secretbox p (fst (random 24 w)) (box_key self)]"
  by (simp add: SecretBox_encrypt_None SecretBox_encrypt_Some length_random calls_random
      split: sum.splits)

lemma Aead_encrypt_calls_None:
  "calls (snd (snd (Aead_encrypt prov encoder self p a None w))) =
     calls w @ [Call_random 24,
                Call_aead_encrypt p a (fst (random 24 w)) (aead_key self)]"
  by (simp add: Aead_encrypt_None Aead_encrypt_Some length_random calls_random
      split: sum.splits)

lemma SecretBox_encrypt_parts:
  assumes "fst (SecretBox_encrypt prov encoder self p (Some n) w) = Inr m"
  shows "length n = 24 \<and>
         (\<exists>c. crypto_secretbox prov p n (box_key self) = Inr c
              \<and> m = \<lparr>nonce = encode encoder n, ciphertext = encode encoder c,
                      combined = encode encoder (n @ c)\<rparr>)"
  using assms by (auto simp: SecretBox_encrypt_Some split: if_splits sum.splits)

lemma Aead_encrypt_parts:
  assumes "fst (Aead_encrypt prov encoder self p a (Some n) w) = Inr m"
  shows "length n = 24 \<and>
         (\<exists>c. crypto_aead_xchacha20poly1305_ietf_encrypt prov p a n (aead_key self) = Inr c
              \<and> m = \<lparr>nonce = encode encoder n, ciphertext = encode encoder c,
                      combined = encode encoder (n @ c)\<rparr>)"
  using assms by (auto simp: Aead_encrypt_Some split: if_splits sum.splits)

lemma SecretBox_encrypt_None_outcome:
  "fst (SecretBox_encrypt prov encoder self p None w) =
     (case crypto_secretbox prov p (fst (random 24 w)) (box_key self) of
        Inl e \<Rightarrow> Inl e
      | Inr ct \<Rightarrow>
          Inr \<lparr>nonce = encode encoder (fst (random 24 w)), ciphertext = encode encoder ct,
               combined = encode encoder (fst (random 24 w) @ ct)\<rparr>)"
  by (simp add: SecretBox_encrypt_None SecretBox_encrypt_Some length_random split: sum.splits)

lemma Aead_encrypt_None_outcome:
  "fst (Aead_encrypt prov encoder self p a None w) =
     (case crypto_aead_xchacha20poly1305_ietf_encrypt prov p a (fst (random 24 w))
             (aead_key self) of
        Inl e \<Rightarrow> Inl e
      | Inr ct \<Rightarrow>
          Inr \<lparr>nonce = encode encoder (fst (random 24 w)), ciphertext = encode encoder ct,
               combined = encode encoder (fst (random 24 w) @ ct)\<rparr>)"
  by (simp add: Aead_encrypt_None Aead_encrypt_Some length_random split: sum.splits)

text \<open>
  Claim C7. When the nonce argument of \<open>encrypt\<close> is omitted, on \<open>SecretBox\<close> and on
  \<open>Aead\<close>: the random source is asked once, for exactly the nonce size, and what it
  returns has that length; the encryption then goes on as it does with these bytes given
  as the nonce. They are used for the encryption: the primitive is called with them, once,
  and the outcome of \<open>encrypt\<close> is the exception of that call or the message made of
  them and of the ciphertext that call returned. So on success they are the nonce of the
  message returned, its ciphertext is the primitive's for this nonce, and its combined
  form starts with them.
\<close>

theorem omitted_nonce_is_drawn:
  "length (fst (random SecretBox_NONCE_SIZE w)) = SecretBox_NONCE_SIZE
   \<and> SecretBox_encrypt prov encoder self p None w =
       SecretBox_encrypt prov encoder self p (Some (fst (random SecretBox_NONCE_SIZE w)))
         (snd (random SecretBox_NONCE_SIZE w))
   \<and> calls (snd (snd (SecretBox_encrypt prov encoder self p None w))) =
       calls w @ [Call_random SecretBox_NONCE_SIZE,
                  Call_crypto_secretbox p (fst (random SecretBox_NONCE_SIZE w)) (box_key self)]
   \<and> (\<forall>m. fst (SecretBox_encrypt prov encoder self p None w) = Inr m \<longrightarrow>
          nonce m = encode encoder (fst (random SecretBox_NONCE_SIZE w)))
   \<and> length (fst (random Aead_NONCE_SIZE w)) = Aead_NONCE_SIZE
   \<and> Aead_encrypt prov encoder aself p a None w =
       Aead_encrypt prov encoder aself p a (Some (fst (random Aead_NONCE_SIZE w)))
         (snd (random Aead_NONCE_SIZE w))
   \<and> calls (snd (snd (Aead_encrypt prov encoder aself p a None w))) =
       calls w @ [Call_random Aead_NONCE_SIZE,
                  Call_aead_encrypt p a (fst (random Aead_NONCE_SIZE w)) (aead_key aself)]
   \<and> (\<forall>m. fst (Aead_encrypt prov encoder aself p a None w) = Inr m \<longrightarrow>
          nonce m = encode encoder (fst (random Aead_NONCE_SIZE w)))
   \<and> fst (SecretBox_encrypt prov encoder self p None w) =
       (case crypto_secretbox prov p (fst (random SecretBox_NONCE_SIZE w)) (box_key self) of
          Inl e \<Rightarrow> Inl e
        | Inr ct \<Rightarrow>
            Inr \<lparr>nonce = encode encoder (fst (random SecretBox_NONCE_SIZE w)),
                 ciphertext = encode encoder ct,
                 combined = encode encoder (fst (random SecretBox_NONCE_SIZE w) @ ct)\<rparr>)
   \<and> fst (Aead_encrypt prov encoder aself p a None w) =
       (case crypto_aead_xchacha20poly1305_ietf_encrypt prov p a
               (fst (random Aead_NONCE_SIZE w)) (aead_key aself) of
          Inl e \<Rightarrow> Inl e
        | Inr ct \<Rightarrow>
            Inr \<lparr>nonce = encode encoder (fst (random Aead_NONCE_SIZE w)),
                 ciphertext = encode encoder ct,
                 combined = encode encoder (fst (random Aead_NONCE_SIZE w) @ ct)\<rparr>)
   \<and> (\<forall>m. fst (SecretBox_encrypt prov encoder self p None w) = Inr m \<longrightarrow>
          (\<exists>ct. crypto_secretbox prov p (fst (random SecretBox_NONCE_SIZE w)) (box_key self) =
                  Inr ct
              \<and> ciphertext m = encode encoder ct
              \<and> combined m = encode encoder (fst (random SecretBox_NONCE_SIZE w) @ ct)))
   \<and> (\<forall>m. fst (Aead_encrypt prov encoder aself p a None w) = Inr m \<longrightarrow>
          (\<exists>ct. crypto_aead_xchacha20poly1305_ietf_encrypt prov p a
                   (fst (random Aead_NONCE_SIZE w)) (aead_key aself) = Inr ct
              \<and> ciphertext m = encode encoder ct
              \<and> combined m = encode encoder (fst (random Aead_NONCE_SIZE w) @ ct)))"
  unfolding size_defs
proof (intro conjI allI impI)
  show "length (fst (random 24 w)) = 24" "length (fst (random 24 w)) = 24"
    by (simp_all add: length_random)
  show "SecretBox_encrypt prov encoder self p None w =
          SecretBox_encrypt prov encoder self p (Some (fst (random 24 w))) (snd (random 24 w))"
    by (rule SecretBox_encrypt_None)
  show "Aead_encrypt prov encoder aself p a None w =
          Aead_encrypt prov encoder aself p a (Some (fst (random 24 w))) (snd (random 24 w))"
    by (rule Aead_encrypt_None)
  show "calls (snd (snd (SecretBox_encrypt prov encoder self p None w))) =
          calls w @ [Call_random 24, Call_crypto_secretbox p (fst (random 24 w)) (box_key self)]"
    by (rule SecretBox_encrypt_calls_None)
  show "calls (snd (snd (Aead_encrypt prov encoder aself p a None w))) =
          calls w @ [Call_random 24, Call_aead_encrypt p a (fst (random 24 w)) (aead_key aself)]"
    by (rule Aead_encrypt_calls_None)
  show "fst (SecretBox_encrypt prov encoder self p None w) =
       (case crypto_secretbox prov p (fst (random 24 w)) (box_key self) of
          Inl e \<Rightarrow> Inl e
        | Inr ct \<Rightarrow>
            Inr \<lparr>nonce = encode encoder (fst (random 24 w)),
                 ciphertext = encode encoder ct,
                 combined = encode encoder (fst (random 24 w) @ ct)\<rparr>)"
    by (rule SecretBox_encrypt_None_outcome)
  show "fst (Aead_encrypt prov encoder aself p a None w) =
       (case crypto_aead_xchacha20poly1305_ietf_encrypt prov p a
               (fst (random 24 w)) (aead_key aself) of
          Inl e \<Rightarrow> Inl e
        | Inr ct \<Rightarrow>
            Inr \<lparr>nonce = encode encoder (fst (random 24 w)),
                 ciphertext = encode encoder ct,
                 combined = encode encoder (fst (random 24 w) @ ct)\<rparr>)"
    by (rule Aead_encrypt_None_outcome)
next
  fix m assume "fst (SecretBox_encrypt prov encoder self p None w) = Inr m"
  then show "nonce m = encode encoder (fst (random 24 w))"
    by (auto simp: SecretBox_encrypt_None_outcome split: sum.splits)
next
  fix m assume "fst (Aead_encrypt prov encoder aself p a None w) = Inr m"
  then show "nonce m = encode encoder (fst (random 24 w))"
    by (auto simp: Aead_encrypt_None_outcome split: sum.splits)
next
  fix m assume "fst (SecretBox_encrypt prov encoder self p None w) = Inr m"
  then show "\<exists>ct. crypto_secretbox prov p (fst (random 24 w)) (box_key self) = Inr ct
              \<and> ciphertext m = encode encoder ct
              \<and> combined m = encode encoder (fst (random 24 w) @ ct)"
    by (auto simp: SecretBox_encrypt_None_outcome split: sum.splits)
next
  fix m assume "fst (Aead_encrypt prov encoder aself p a None w) = Inr m"
  then show "\<exists>ct. crypto_aead_xchacha20poly1305_ietf_encrypt prov p a
                   (fst (random 24 w)) (aead_key aself) = Inr ct
              \<and> ciphertext m = encode encoder ct
              \<and> combined m = encode encoder (fst (random 24 w) @ ct)"
    by (auto simp: Aead_encrypt_None_outcome split: sum.splits)
qed

lemma example_SecretBox_encrypt_None:
  "fst (SecretBox_encrypt example_provider RawEncoder \<lparr>box_key = zero_key\<rparr> test_message None
          example_world) =
     Inr \<lparr>nonce = [3, 10, 17, 24, 31, 38, 45, 52, 59, 66, 73, 80, 87, 94, 101, 108,
                   115, 122, 129, 136, 143, 150, 157, 164],
          ciphertext = [3, 10, 17, 24, 31, 38, 45, 52, 59, 66, 73, 80, 87, 94, 101, 108,
                   101, 103, 97, 115, 115, 101, 109, 32, 116, 115, 101, 116],
          combined = [3, 10, 17, 24, 31, 38, 45, 52, 59, 66, 73, 80, 87, 94, 101, 108,
                   115, 122, 129, 136, 143, 150, 157, 164,
                   3, 10, 17, 24, 31, 38, 45, 52, 59, 66, 73, 80, 87, 94, 101, 108,
                   101, 103, 97, 115, 115, 101, 109, 32, 116, 115, 101, 116]\<rparr>"
  by code_simp

lemma example_Aead_encrypt_None:
  "fst (Aead_encrypt example_provider RawEncoder \<lparr>aead_key = zero_key\<rparr> test_message header
          None example_world) =
     Inr \<lparr>nonce = [3, 10, 17, 24, 31, 38, 45, 52, 59, 66, 73, 80, 87, 94, 101, 108,
                   115, 122, 129, 136, 143, 150, 157, 164],
          ciphertext = [116, 101, 115, 116, 32, 109, 101, 115, 115, 97, 103, 101,
                   114, 121, 128, 135, 142, 149, 156, 163, 170, 177, 184, 191, 198, 205,
                   212, 219],
          combined = [3, 10, 17, 24, 31, 38, 45, 52, 59, 66, 73, 80, 87, 94, 101, 108,
                   115, 122, 129, 136, 143, 150, 157, 164,
                   116, 101, 115, 116, 32, 109, 101, 115, 115, 97, 103, 101,
                   114, 121, 128, 135, 142, 149, 156, 163, 170, 177, 184, 191, 198, 205,
                   212, 219]\<rparr>"
  by code_simp

theorem omitted_nonce_is_drawn_witness:
  "(\<exists>m. fst (SecretBox_encrypt example_provider RawEncoder \<lparr>box_key = zero_key\<rparr> test_message
            None example_world) = Inr m
        \<and> nonce m = fst (random SecretBox_NONCE_SIZE example_world)
        \<and> length (nonce m) = 24
        \<and> crypto_secretbox example_provider test_message (nonce m) zero_key =
            Inr (ciphertext m)
        \<and> combined m = nonce m @ ciphertext m)
   \<and> (\<exists>m. fst (Aead_encrypt example_provider RawEncoder \<lparr>aead_key = zero_key\<rparr> test_message
            header None example_world) = Inr m
        \<and> nonce m = fst (random Aead_NONCE_SIZE example_world)
        \<and> length (nonce m) = 24
        \<and> crypto_aead_xchacha20poly1305_ietf_encrypt example_provider test_message header
            (nonce m) zero_key = Inr (ciphertext m)
        \<and> combined m = nonce m @ ciphertext m)"
proof -
  note t = omitted_nonce_is_drawn [of example_world example_provider RawEncoder
      "\<lparr>box_key = zero_key\<rparr>" test_message "\<lparr>aead_key = zero_key\<rparr>" header]
  have enc: "encode RawEncoder b = b" for b
    by (simp add: RawEncoder_def)
  obtain m where m: "fst (SecretBox_encrypt example_provider RawEncoder
      \<lparr>box_key = zero_key\<rparr> test_message None example_world) = Inr m"
    using example_SecretBox_encrypt_None by blast
  obtain am where am: "fst (Aead_encrypt example_provider RawEncoder
      \<lparr>aead_key = zero_key\<rparr> test_message header None example_world) = Inr am"
    using example_Aead_encrypt_None by blast
  from t m have m1: "nonce m = fst (random SecretBox_NONCE_SIZE example_world)"
    by (simp add: enc)
  from t m obtain ct
    where "crypto_secretbox example_provider test_message
             (fst (random SecretBox_NONCE_SIZE example_world)) (box_key \<lparr>box_key = zero_key\<rparr>) =
           Inr ct"
      and "ciphertext m = encode RawEncoder ct"
      and "combined m = encode RawEncoder (fst (random SecretBox_NONCE_SIZE example_world) @ ct)"
    by blast
  with m1 have m2: "crypto_secretbox example_provider test_message (nonce m) zero_key =
      Inr (ciphertext m)" and m3: "combined m = nonce m @ ciphertext m"
    by (simp_all add: enc)
  from t am have a1: "nonce am = fst (random Aead_NONCE_SIZE example_world)"
    by (simp add: enc)
  from t am obtain act
    where "crypto_aead_xchacha20poly1305_ietf_encrypt example_provider test_message header
             (fst (random Aead_NONCE_SIZE example_world)) (aead_key \<lparr>aead_key = zero_key\<rparr>) =
           Inr act"
      and "ciphertext am = encode RawEncoder act"
      and "combined am = encode RawEncoder (fst (random Aead_NONCE_SIZE example_world) @ act)"
    by blast
  with a1 have a2: "crypto_aead_xchacha20poly1305_ietf_encrypt example_provider test_message
      header (nonce am) zero_key = Inr (ciphertext am)"
    and a3: "combined am = nonce am @ ciphertext am"
    by (simp_all add: enc)
  have len: "length (fst (random SecretBox_NONCE_SIZE example_world)) = 24"
    "length (fst (random Aead_NONCE_SIZE example_world)) = 24"
    by (simp_all add: length_random size_defs)
  show ?thesis
    using m m1 m2 m3 am a1 a2 a3 len by auto
qed

section \<open>Determinism and the combined form\<close>

text \<open>
  Claim C8. Encryption with an explicit nonce is deterministic: the outcome of
  \<open>encrypt\<close> (the message with its nonce, ciphertext and combined form, or the
  exception) is a function of the key, the nonce, the plaintext (and, for \<open>Aead\<close>,
  the associated data) and the encoder alone. Two runs with these arguments equal give
  equal outcomes whatever the state of the random source and the history of calls, and
  the run reads nothing from the random source.
\<close>

theorem encrypt_deterministic:
  "fst (SecretBox_encrypt prov encoder self p (Some n) w) =
     fst (SecretBox_encrypt prov encoder self p (Some n) w')
   \<and> fst (Aead_encrypt prov encoder aself p a (Some n) w) =
     fst (Aead_encrypt prov encoder aself p a (Some n) w')
   \<and> entropy (snd (snd (SecretBox_encrypt prov encoder self p (Some n) w))) = entropy w
   \<and> entropy (snd (snd (Aead_encrypt prov encoder aself p a (Some n) w))) = entropy w"
  by (simp add: SecretBox_encrypt_Some Aead_encrypt_Some split: sum.splits)

lemma SecretBox_encrypt_message:
  assumes "fst (SecretBox_encrypt prov encoder self p nonce_arg w) = Inr m"
  shows "\<exists>n c. length n = 24
           \<and> n = (case nonce_arg of None \<Rightarrow> fst (random 24 w) | Some n' \<Rightarrow> n')
           \<and> crypto_secretbox prov p n (box_key self) = Inr c
           \<and> m = \<lparr>nonce = encode encoder n, ciphertext = encode encoder c,
                   combined = encode encoder (n @ c)\<rparr>"
proof (cases nonce_arg)
  case None
  with assms
    SecretBox_encrypt_parts [of prov encoder self p "fst (random 24 w)" "snd (random 24 w)" m]
  show ?thesis by (simp add: SecretBox_encrypt_None)
next
  case (Some n)
  with assms SecretBox_encrypt_parts [of prov encoder self p n w m]
  show ?thesis by simp
qed

lemma Aead_encrypt_message:
  assumes "fst (Aead_encrypt prov encoder self p a nonce_arg w) = Inr m"
  shows "\<exists>n c. length n = 24
           \<and> n = (case nonce_arg of None \<Rightarrow> fst (random 24 w) | Some n' \<Rightarrow> n')
           \<and> crypto_aead_xchacha20poly1305_ietf_encrypt prov p a n (aead_key self) = Inr c
           \<and> m = \<lparr>nonce = encode encoder n, ciphertext = encode encoder c,
                   combined = encode encoder (n @ c)\<rparr>"
proof (cases nonce_arg)
  case None
  with assms
    Aead_encrypt_parts [of prov encoder self p a "fst (random 24 w)" "snd (random 24 w)" m]
  show ?thesis by (simp add: Aead_encrypt_None)
next
  case (Some n)
  with assms Aead_encrypt_parts [of prov encoder self p a n w m]
  show ?thesis by simp
qed

lemma RawEncoder_encode: "encode RawEncoder b = b"
  by (simp add: RawEncoder_def)

lemma RawEncoder_decode_bytes: "decode RawEncoder b = Inr b"
  by (simp add: RawEncoder_def)

lemma RawEncoder_roundtrip: "encoder_roundtrip RawEncoder"
  by (simp add: encoder_roundtrip_def RawEncoder_def)

text \<open>
  Claim C2. Whenever \<open>encrypt\<close> of \<open>SecretBox\<close> or of \<open>Aead\<close> returns a message,
  there are the nonce bytes \<open>n\<close>, of the nonce size (the nonce argument, or the bytes
  drawn when it is omitted), and the ciphertext bytes \<open>c\<close> that the primitive returned,
  such that the three fields of the message are the encodings of \<open>n\<close>, of \<open>c\<close> and of
  \<open>n @ c\<close>: the combined form is, before encoding, the nonce followed at once by the
  ciphertext. With the raw encoder the combined field is the nonce field followed by the
  ciphertext field, and with a round-trip exact encoder it decodes to \<open>n @ c\<close>.
\<close>

theorem combined_is_nonce_then_ciphertext:
  "(fst (SecretBox_encrypt prov encoder self p nonce_arg w) = Inr m \<longrightarrow>
      (\<exists>n c. length n = SecretBox_NONCE_SIZE
           \<and> n = (case nonce_arg of None \<Rightarrow> fst (random SecretBox_NONCE_SIZE w) | Some n' \<Rightarrow> n')
           \<and> crypto_secretbox prov p n (box_key self) = Inr c
           \<and> nonce m = encode encoder n
           \<and> ciphertext m = encode encoder c
           \<and> combined m = encode encoder (n @ c)
           \<and> (encoder_roundtrip encoder \<longrightarrow> decode encoder (combined m) = Inr (n @ c))))
   \<and> (fst (Aead_encrypt prov encoder aself p a nonce_arg w) = Inr am \<longrightarrow>
      (\<exists>n c. length n = Aead_NONCE_SIZE
           \<and> n = (case nonce_arg of None \<Rightarrow> fst (random Aead_NONCE_SIZE w) | Some n' \<Rightarrow> n')
           \<and> crypto_aead_xchacha20poly1305_ietf_encrypt prov p a n (aead_key aself) = Inr c
           \<and> nonce am = encode encoder n
           \<and> ciphertext am = encode encoder c
           \<and> combined am = encode encoder (n @ c)
           \<and> (encoder_roundtrip encoder \<longrightarrow> decode encoder (combined am) = Inr (n @ c))))
   \<and> (fst (SecretBox_encrypt prov RawEncoder self p nonce_arg w) = Inr rm \<longrightarrow>
        combined rm = nonce rm @ ciphertext rm)
   \<and> (fst (Aead_encrypt prov RawEncoder aself p a nonce_arg w) = Inr ram \<longrightarrow>
        combined ram = nonce ram @ ciphertext ram)"
proof (intro conjI impI)
  assume "fst (SecretBox_encrypt prov encoder self p nonce_arg w) = Inr m"
  from SecretBox_encrypt_message [OF this]
  obtain n c where "length n = 24"
    and "n = (case nonce_arg of None \<Rightarrow> fst (random 24 w) | Some n' \<Rightarrow> n')"
    and "crypto_secretbox prov p n (box_key self) = Inr c"
    and "m = \<lparr>nonce = encode encoder n, ciphertext = encode encoder c,
              combined = encode encoder (n @ c)\<rparr>"
    by blast
  then have "length n = SecretBox_NONCE_SIZE
           \<and> n = (case nonce_arg of None \<Rightarrow> fst (random SecretBox_NONCE_SIZE w) | Some n' \<Rightarrow> n')
           \<and> crypto_secretbox prov p n (box_key self) = Inr c
           \<and> nonce m = encode encoder n
           \<and> ciphertext m = encode encoder c
           \<and> combined m = encode encoder (n @ c)
           \<and> (encoder_roundtrip encoder \<longrightarrow> decode encoder (combined m) = Inr (n @ c))"
    unfolding size_defs by (simp add: encoder_roundtrip_def)
  then show "\<exists>n c. length n = SecretBox_NONCE_SIZE
           \<and> n = (case nonce_arg of None \<Rightarrow> fst (random SecretBox_NONCE_SIZE w) | Some n' \<Rightarrow> n')
           \<and> crypto_secretbox prov p n (box_key self) = Inr c
           \<and> nonce m = encode encoder n
           \<and> ciphertext m = encode encoder c
           \<and> combined m = encode encoder (n @ c)
           \<and> (encoder_roundtrip encoder \<longrightarrow> decode encoder (combined m) = Inr (n @ c))"
    by blast
next
  assume "fst (Aead_encrypt prov encoder aself p a nonce_arg w) = Inr am"
  from Aead_encrypt_message [OF this]
  obtain n c where "length n = 24"
    and "n = (case nonce_arg of None \<Rightarrow> fst (random 24 w) | Some n' \<Rightarrow> n')"
    and "crypto_aead_xchacha20poly1305_ietf_encrypt prov p a n (aead_key aself) = Inr c"
    and "am = \<lparr>nonce = encode encoder n, ciphertext = encode encoder c,
               combined = encode encoder (n @ c)\<rparr>"
    by blast
  then have "length n = Aead_NONCE_SIZE
           \<and> n = (case nonce_arg of None \<Rightarrow> fst (random Aead_NONCE_SIZE w) | Some n' \<Rightarrow> n')
           \<and> crypto_aead_xchacha20poly1305_ietf_encrypt prov p a n (aead_key aself) = Inr c
           \<and> nonce am = encode encoder n
           \<and> ciphertext am = encode encoder c
           \<and> combined am = encode encoder (n @ c)
           \<and> (encoder_roundtrip encoder \<longrightarrow> decode encoder (combined am) = Inr (n @ c))"
    unfolding size_defs by (simp add: encoder_roundtrip_def)
  then show "\<exists>n c. length n = Aead_NONCE_SIZE
           \<and> n = (case nonce_arg of None \<Rightarrow> fst (random Aead_NONCE_SIZE w) | Some n' \<Rightarrow> n')
           \<and> crypto_aead_xchacha20poly1305_ietf_encrypt prov p a n (aead_key aself) = Inr c
           \<and> nonce am = encode encoder n
           \<and> ciphertext am = encode encoder c
           \<and> combined am = encode encoder (n @ c)
           \<and> (encoder_roundtrip encoder \<longrightarrow> decode encoder (combined am) = Inr (n @ c))"
    by blast
next
  assume "fst (SecretBox_encrypt prov RawEncoder self p nonce_arg w) = Inr rm"
  from SecretBox_encrypt_message [OF this]
  show "combined rm = nonce rm @ ciphertext rm"
    by (auto simp: RawEncoder_encode)
next
  assume "fst (Aead_encrypt prov RawEncoder aself p a nonce_arg w) = Inr ram"
  from Aead_encrypt_message [OF this]
  show "combined ram = nonce ram @ ciphertext ram"
    by (auto simp: RawEncoder_encode)
qed

lemma example_SecretBox_encrypt_zero:
  "fst (SecretBox_encrypt example_provider RawEncoder \<lparr>box_key = zero_key\<rparr> test_message
          (Some zero_nonce) example_world) =
     Inr \<lparr>nonce = zero_nonce,
          ciphertext = [0, 0, 0, 0, 0, 0, 0, 0, 0, 0, 0, 0, 0, 0, 0, 0,
                        101, 103, 97, 115, 115, 101, 109, 32, 116, 115, 101, 116],
          combined = zero_nonce @
                       [0, 0, 0, 0, 0, 0, 0, 0, 0, 0, 0, 0, 0, 0, 0, 0,
                        101, 103, 97, 115, 115, 101, 109, 32, 116, 115, 101, 116]\<rparr>"
  by code_simp

lemma example_Aead_encrypt_zero:
  "fst (Aead_encrypt example_provider RawEncoder \<lparr>aead_key = zero_key\<rparr> test_message header
          (Some zero_nonce) example_world) =
     Inr \<lparr>nonce = zero_nonce,
          ciphertext = [116, 101, 115, 116, 32, 109, 101, 115, 115, 97, 103, 101,
                        111, 111, 111, 111, 111, 111, 111, 111, 111, 111, 111, 111, 111,
                        111, 111, 111],
          combined = zero_nonce @
                       [116, 101, 115, 116, 32, 109, 101, 115, 115, 97, 103, 101,
                        111, 111, 111, 111, 111, 111, 111, 111, 111, 111, 111, 111, 111,
                        111, 111, 111]\<rparr>"
  by code_simp

theorem combined_is_nonce_then_ciphertext_witness:
  "(\<exists>m. fst (SecretBox_encrypt example_provider RawEncoder \<lparr>box_key = zero_key\<rparr> test_message
            (Some zero_nonce) example_world) = Inr m
        \<and> combined m = nonce m @ ciphertext m
        \<and> nonce m = zero_nonce)
   \<and> (\<exists>m. fst (Aead_encrypt example_provider RawEncoder \<lparr>aead_key = zero_key\<rparr> test_message
            header (Some zero_nonce) example_world) = Inr m
        \<and> combined m = nonce m @ ciphertext m
        \<and> nonce m = zero_nonce)"
proof -
  let ?m = "\<lparr>nonce = zero_nonce,
          ciphertext = [0, 0, 0, 0, 0, 0, 0, 0, 0, 0, 0, 0, 0, 0, 0, 0,
                        101, 103, 97, 115, 115, 101, 109, 32, 116, 115, 101, 116],
          combined = zero_nonce @
                       [0, 0, 0, 0, 0, 0, 0, 0, 0, 0, 0, 0, 0, 0, 0, 0,
                        101, 103, 97, 115, 115, 101, 109, 32, 116, 115, 101, 116]\<rparr>"
  let ?am = "\<lparr>nonce = zero_nonce,
          ciphertext = [116, 101, 115, 116, 32, 109, 101, 115, 115, 97, 103, 101,
                        111, 111, 111, 111, 111, 111, 111, 111, 111, 111, 111, 111, 111,
                        111, 111, 111],
          combined = zero_nonce @
                       [116, 101, 115, 116, 32, 109, 101, 115, 115, 97, 103, 101,
                        111, 111, 111, 111, 111, 111, 111, 111, 111, 111, 111, 111, 111,
                        111, 111, 111]\<rparr>"
  note t = combined_is_nonce_then_ciphertext [of example_provider RawEncoder
      "\<lparr>box_key = zero_key\<rparr>" test_message "Some zero_nonce" example_world ?m
      "\<lparr>aead_key = zero_key\<rparr>" header ?am ?m ?am]
  have "combined ?m = nonce ?m @ ciphertext ?m"
    using t example_SecretBox_encrypt_zero by blast
  moreover have "combined ?am = nonce ?am @ ciphertext ?am"
    using t example_Aead_encrypt_zero by blast
  ultimately show ?thesis
    using example_SecretBox_encrypt_zero example_Aead_encrypt_zero by simp
qed

section \<open>The example provider keeps the promises\<close>

lemma example_secretbox_roundtrip: "secretbox_roundtrip example_provider"
  by (auto simp: secretbox_roundtrip_def example_provider_def example_secretbox_def
      example_secretbox_open_def)

lemma example_aead_roundtrip: "aead_roundtrip example_provider"
  by (auto simp: aead_roundtrip_def example_provider_def example_aead_encrypt_def
      example_aead_decrypt_def)



section \<open>Decrypting what was encrypted\<close>

lemma SecretBox_roundtrip_parts:
  assumes "secretbox_roundtrip prov" and "encoder_roundtrip encoder"
    and "length (box_key self) = 32" and "length n = 24"
    and "crypto_secretbox prov p n (box_key self) = Inr c"
  shows "fst (SecretBox_decrypt prov encoder self (encode encoder c) (Some n) w) = Inr p"
    and "fst (SecretBox_decrypt prov encoder self (encode encoder (n @ c)) None w) = Inr p"
    and "calls (snd (snd (SecretBox_decrypt prov encoder self (encode encoder (n @ c)) None w))) =
           calls w @ [Call_crypto_secretbox_open c n (box_key self)]"
proof -
  from assms have op: "crypto_secretbox_open prov c n (box_key self) = Inr p"
    by (simp add: secretbox_roundtrip_def size_defs)
  from assms(2) have d1: "decode encoder (encode encoder c) = Inr c"
    and d2: "decode encoder (encode encoder (n @ c)) = Inr (n @ c)"
    by (simp_all add: encoder_roundtrip_def)
  show "fst (SecretBox_decrypt prov encoder self (encode encoder c) (Some n) w) = Inr p"
    using op \<open>length n = 24\<close> by (simp add: SecretBox_decrypt_Some [OF d1])
  show "fst (SecretBox_decrypt prov encoder self (encode encoder (n @ c)) None w) = Inr p"
    using op \<open>length n = 24\<close> by (simp add: SecretBox_decrypt_None [OF d2])
  show "calls (snd (snd (SecretBox_decrypt prov encoder self (encode encoder (n @ c)) None w))) =
           calls w @ [Call_crypto_secretbox_open c n (box_key self)]"
    using \<open>length n = 24\<close> by (simp add: SecretBox_decrypt_None [OF d2])
qed

lemma Aead_decrypt_parts:
  assumes "encoder_roundtrip encoder" and "length n = 24"
  shows "fst (Aead_decrypt prov encoder self (encode encoder c) a (Some n) w) =
           crypto_aead_xchacha20poly1305_ietf_decrypt prov c a n (aead_key self)"
    and "fst (Aead_decrypt prov encoder self (encode encoder (n @ c)) a None w) =
           crypto_aead_xchacha20poly1305_ietf_decrypt prov c a n (aead_key self)"
    and "calls (snd (snd (Aead_decrypt prov encoder self (encode encoder (n @ c)) a None w))) =
           calls w @ [Call_aead_decrypt c a n (aead_key self)]"
proof -
  from assms(1) have d1: "decode encoder (encode encoder c) = Inr c"
    and d2: "decode encoder (encode encoder (n @ c)) = Inr (n @ c)"
    by (simp_all add: encoder_roundtrip_def)
  show "fst (Aead_decrypt prov encoder self (encode encoder c) a (Some n) w) =
           crypto_aead_xchacha20poly1305_ietf_decrypt prov c a n (aead_key self)"
    using \<open>length n = 24\<close> by (simp add: Aead_decrypt_Some [OF d1])
  show "fst (Aead_decrypt prov encoder self (encode encoder (n @ c)) a None w) =
           crypto_aead_xchacha20poly1305_ietf_decrypt prov c a n (aead_key self)"
    using \<open>length n = 24\<close> by (simp add: Aead_decrypt_None [OF d2])
  show "calls (snd (snd (Aead_decrypt prov encoder self (encode encoder (n @ c)) a None w))) =
           calls w @ [Call_aead_decrypt c a n (aead_key self)]"
    using \<open>length n = 24\<close> by (simp add: Aead_decrypt_None [OF d2])
qed

lemma SecretBox_encrypt_returns:
  assumes "length n = 24" and "crypto_secretbox prov p n (box_key self) = Inr c"
  shows "fst (SecretBox_encrypt prov encoder self p (Some n) w) =
           Inr \<lparr>nonce = encode encoder n, ciphertext = encode encoder c,
                combined = encode encoder (n @ c)\<rparr>"
  using assms by (simp add: SecretBox_encrypt_Some)

lemma Aead_encrypt_returns:
  assumes "length n = 24"
    and "crypto_aead_xchacha20poly1305_ietf_encrypt prov p a n (aead_key self) = Inr c"
  shows "fst (Aead_encrypt prov encoder self p a (Some n) w) =
           Inr \<lparr>nonce = encode encoder n, ciphertext = encode encoder c,
                combined = encode encoder (n @ c)\<rparr>"
  using assms by (simp add: Aead_encrypt_Some)

text \<open>
  Claim C1. For a \<open>SecretBox\<close> made by the constructor (so its key has the key size), a
  nonce \<open>n\<close> of the nonce size and a plaintext \<open>p\<close> that the primitive accepts:
  \<open>encrypt(p, n)\<close> returns a message, and \<open>decrypt\<close> of its ciphertext with the same
  nonce \<open>n\<close>, on the same instance, returns exactly \<open>p\<close>. For \<open>Aead\<close> the same
  holds for every associated data \<open>a\<close> given to both calls. The primitive provider and
  the encoder keep their round-trip promises.
\<close>

theorem decrypt_inverts_encrypt:
  assumes "encoder_roundtrip encoder"
  shows "(secretbox_roundtrip prov \<longrightarrow> SecretBox_init decoder k = Inr self \<longrightarrow>
          length n = SecretBox_NONCE_SIZE \<longrightarrow>
          crypto_secretbox prov p n (box_key self) = Inr c \<longrightarrow>
            (\<exists>m. fst (SecretBox_encrypt prov encoder self p (Some n) w) = Inr m
                \<and> fst (SecretBox_decrypt prov encoder self (ciphertext m) (Some n) w') = Inr p))
       \<and> (aead_roundtrip prov \<longrightarrow> Aead_init decoder k = Inr aself \<longrightarrow>
          length n = Aead_NONCE_SIZE \<longrightarrow>
          crypto_aead_xchacha20poly1305_ietf_encrypt prov p a n (aead_key aself) = Inr ac \<longrightarrow>
            (\<exists>m. fst (Aead_encrypt prov encoder aself p a (Some n) w) = Inr m
                \<and> fst (Aead_decrypt prov encoder aself (ciphertext m) a (Some n) w') = Inr p))"
proof (intro conjI impI)
  assume rt: "secretbox_roundtrip prov" and init: "SecretBox_init decoder k = Inr self"
    and "length n = SecretBox_NONCE_SIZE"
    and c: "crypto_secretbox prov p n (box_key self) = Inr c"
  then have n: "length n = 24"
    by (simp add: size_defs)
  from init have "length (box_key self) = 32"
    by (rule SecretBox_init_key_length)
  with rt assms n c
  have "fst (SecretBox_decrypt prov encoder self (encode encoder c) (Some n) w') = Inr p"
    by (simp add: SecretBox_roundtrip_parts(1))
  with n c
  show "\<exists>m. fst (SecretBox_encrypt prov encoder self p (Some n) w) = Inr m
          \<and> fst (SecretBox_decrypt prov encoder self (ciphertext m) (Some n) w') = Inr p"
    by (simp add: SecretBox_encrypt_returns)
next
  assume rt: "aead_roundtrip prov" and init: "Aead_init decoder k = Inr aself"
    and "length n = Aead_NONCE_SIZE"
    and c: "crypto_aead_xchacha20poly1305_ietf_encrypt prov p a n (aead_key aself) = Inr ac"
  then have n: "length n = 24"
    by (simp add: size_defs)
  from init have "length (aead_key aself) = 32"
    by (rule Aead_init_key_length)
  with rt n c
  have "crypto_aead_xchacha20poly1305_ietf_decrypt prov ac a n (aead_key aself) = Inr p"
    by (simp add: aead_roundtrip_def size_defs)
  with assms n
  have "fst (Aead_decrypt prov encoder aself (encode encoder ac) a (Some n) w') = Inr p"
    by (simp add: Aead_decrypt_parts(1))
  with n c
  show "\<exists>m. fst (Aead_encrypt prov encoder aself p a (Some n) w) = Inr m
          \<and> fst (Aead_decrypt prov encoder aself (ciphertext m) a (Some n) w') = Inr p"
    by (simp add: Aead_encrypt_returns)
qed

lemma example_instances:
  "SecretBox_init RawEncoder_decode (PyBytes zero_key) = Inr \<lparr>box_key = zero_key\<rparr>"
  "Aead_init RawEncoder_decode (PyBytes zero_key) = Inr \<lparr>aead_key = zero_key\<rparr>"
  by (simp_all add: SecretBox_init_bytes Aead_init_bytes RawEncoder_decode_def zero_key_def)

lemma zero_nonce_sizes:
  "length zero_nonce = SecretBox_NONCE_SIZE" "length zero_nonce = Aead_NONCE_SIZE"
  by (simp_all add: zero_nonce_def size_defs)

theorem decrypt_inverts_encrypt_witness:
  "(\<exists>m. fst (SecretBox_encrypt example_provider RawEncoder \<lparr>box_key = zero_key\<rparr> test_message
            (Some zero_nonce) example_world) = Inr m
        \<and> fst (SecretBox_decrypt example_provider RawEncoder \<lparr>box_key = zero_key\<rparr>
            (ciphertext m) (Some zero_nonce) example_world) = Inr test_message)
   \<and> (\<exists>m. fst (Aead_encrypt example_provider RawEncoder \<lparr>aead_key = zero_key\<rparr> test_message
            header (Some zero_nonce) example_world) = Inr m
        \<and> fst (Aead_decrypt example_provider RawEncoder \<lparr>aead_key = zero_key\<rparr>
            (ciphertext m) header (Some zero_nonce) example_world) = Inr test_message)"
  using decrypt_inverts_encrypt [where encoder = RawEncoder and prov = example_provider
      and decoder = RawEncoder_decode and k = "PyBytes zero_key"
      and self = "\<lparr>box_key = zero_key\<rparr>" and aself = "\<lparr>aead_key = zero_key\<rparr>"
      and n = zero_nonce and p = test_message and a = header
      and c = "example_tag zero_nonce zero_key @ rev test_message"
      and ac = "test_message @ example_aead_tag header zero_nonce zero_key"
      and w = example_world and w' = example_world,
      OF RawEncoder_roundtrip]
    example_secretbox_roundtrip example_aead_roundtrip example_instances zero_nonce_sizes
    example_provider_encrypts
  by simp

section \<open>The combined form and the associated data\<close>

text \<open>
  Claim C3. For an instance made by the constructor and a message \<open>m\<close> returned by its
  \<open>encrypt\<close> for the plaintext \<open>p\<close>, with the nonce given or drawn: \<open>decrypt\<close> of
  the combined form of \<open>m\<close> with the nonce omitted returns exactly \<open>p\<close>. It decodes
  the combined form to \<open>n @ c\<close>, takes the first 24 bytes \<open>n\<close> as the nonce and the
  rest \<open>c\<close> as the ciphertext, and calls the primitive with these. For \<open>Aead\<close> the
  same holds with the associated data of the encryption. The primitive provider and the
  encoder keep their round-trip promises.
\<close>

theorem combined_form_decrypts:
  assumes "encoder_roundtrip encoder"
  shows "(secretbox_roundtrip prov \<longrightarrow> SecretBox_init decoder k = Inr self \<longrightarrow>
          fst (SecretBox_encrypt prov encoder self p nonce_arg w) = Inr m \<longrightarrow>
            fst (SecretBox_decrypt prov encoder self (combined m) None w') = Inr p
          \<and> (\<exists>n c. decode encoder (combined m) = Inr (n @ c)
                \<and> length n = SecretBox_NONCE_SIZE
                \<and> nonce m = encode encoder n \<and> ciphertext m = encode encoder c
                \<and> calls (snd (snd (SecretBox_decrypt prov encoder self (combined m) None w'))) =
                    calls w' @ [Call_crypto_secretbox_open c n (box_key self)]))
       \<and> (aead_roundtrip prov \<longrightarrow> Aead_init decoder k = Inr aself \<longrightarrow>
          fst (Aead_encrypt prov encoder aself p a nonce_arg w) = Inr am \<longrightarrow>
            fst (Aead_decrypt prov encoder aself (combined am) a None w') = Inr p
          \<and> (\<exists>n c. decode encoder (combined am) = Inr (n @ c)
                \<and> length n = Aead_NONCE_SIZE
                \<and> nonce am = encode encoder n \<and> ciphertext am = encode encoder c
                \<and> calls (snd (snd (Aead_decrypt prov encoder aself (combined am) a None w'))) =
                    calls w' @ [Call_aead_decrypt c a n (aead_key aself)]))"
proof (intro conjI impI)
  assume rt: "secretbox_roundtrip prov" and init: "SecretBox_init decoder k = Inr self"
    and enc: "fst (SecretBox_encrypt prov encoder self p nonce_arg w) = Inr m"
  from SecretBox_encrypt_message [OF enc]
  obtain n c where n: "length n = 24"
    and c: "crypto_secretbox prov p n (box_key self) = Inr c"
    and m: "m = \<lparr>nonce = encode encoder n, ciphertext = encode encoder c,
                 combined = encode encoder (n @ c)\<rparr>"
    by blast
  from init have key: "length (box_key self) = 32"
    by (rule SecretBox_init_key_length)
  note parts = SecretBox_roundtrip_parts [OF rt assms key n c]
  from m parts(2)
  show "fst (SecretBox_decrypt prov encoder self (combined m) None w') = Inr p"
    by simp
  from assms have "decode encoder (encode encoder (n @ c)) = Inr (n @ c)"
    by (simp add: encoder_roundtrip_def)
  with m n parts(3) [of w']
  have "decode encoder (combined m) = Inr (n @ c)
        \<and> length n = SecretBox_NONCE_SIZE
        \<and> nonce m = encode encoder n \<and> ciphertext m = encode encoder c
        \<and> calls (snd (snd (SecretBox_decrypt prov encoder self (combined m) None w'))) =
            calls w' @ [Call_crypto_secretbox_open c n (box_key self)]"
    by (simp add: size_defs)
  then show "\<exists>n c. decode encoder (combined m) = Inr (n @ c)
        \<and> length n = SecretBox_NONCE_SIZE
        \<and> nonce m = encode encoder n \<and> ciphertext m = encode encoder c
        \<and> calls (snd (snd (SecretBox_decrypt prov encoder self (combined m) None w'))) =
            calls w' @ [Call_crypto_secretbox_open c n (box_key self)]"
    by blast
next
  assume rt: "aead_roundtrip prov" and init: "Aead_init decoder k = Inr aself"
    and enc: "fst (Aead_encrypt prov encoder aself p a nonce_arg w) = Inr am"
  from Aead_encrypt_message [OF enc]
  obtain n c where n: "length n = 24"
    and c: "crypto_aead_xchacha20poly1305_ietf_encrypt prov p a n (aead_key aself) = Inr c"
    and m: "am = \<lparr>nonce = encode encoder n, ciphertext = encode encoder c,
                  combined = encode encoder (n @ c)\<rparr>"
    by blast
  from init have key: "length (aead_key aself) = 32"
    by (rule Aead_init_key_length)
  with rt n c
  have dec: "crypto_aead_xchacha20poly1305_ietf_decrypt prov c a n (aead_key aself) = Inr p"
    by (simp add: aead_roundtrip_def size_defs)
  note parts = Aead_decrypt_parts [OF assms n]
  from m dec parts(2) [of prov aself c a w']
  show "fst (Aead_decrypt prov encoder aself (combined am) a None w') = Inr p"
    by simp
  from assms have "decode encoder (encode encoder (n @ c)) = Inr (n @ c)"
    by (simp add: encoder_roundtrip_def)
  with m n parts(3) [of prov aself c a w']
  have "decode encoder (combined am) = Inr (n @ c)
        \<and> length n = Aead_NONCE_SIZE
        \<and> nonce am = encode encoder n \<and> ciphertext am = encode encoder c
        \<and> calls (snd (snd (Aead_decrypt prov encoder aself (combined am) a None w'))) =
            calls w' @ [Call_aead_decrypt c a n (aead_key aself)]"
    by (simp add: size_defs)
  then show "\<exists>n c. decode encoder (combined am) = Inr (n @ c)
        \<and> length n = Aead_NONCE_SIZE
        \<and> nonce am = encode encoder n \<and> ciphertext am = encode encoder c
        \<and> calls (snd (snd (Aead_decrypt prov encoder aself (combined am) a None w'))) =
            calls w' @ [Call_aead_decrypt c a n (aead_key aself)]"
    by blast
qed

theorem combined_form_decrypts_witness:
  "(\<exists>m. fst (SecretBox_encrypt example_provider RawEncoder \<lparr>box_key = zero_key\<rparr> test_message
            None example_world) = Inr m
        \<and> fst (SecretBox_decrypt example_provider RawEncoder \<lparr>box_key = zero_key\<rparr>
            (combined m) None example_world) = Inr test_message)
   \<and> (\<exists>m. fst (Aead_encrypt example_provider RawEncoder \<lparr>aead_key = zero_key\<rparr> test_message
            header (Some zero_nonce) example_world) = Inr m
        \<and> fst (Aead_decrypt example_provider RawEncoder \<lparr>aead_key = zero_key\<rparr>
            (combined m) header None example_world) = Inr test_message)"
proof -
  obtain m where m: "fst (SecretBox_encrypt example_provider RawEncoder
      \<lparr>box_key = zero_key\<rparr> test_message None example_world) = Inr m"
    using example_SecretBox_encrypt_None by blast
  obtain am where am: "fst (Aead_encrypt example_provider RawEncoder
      \<lparr>aead_key = zero_key\<rparr> test_message header (Some zero_nonce) example_world) = Inr am"
    using example_Aead_encrypt_zero by blast
  note t = combined_form_decrypts [where encoder = RawEncoder and prov = example_provider
      and decoder = RawEncoder_decode and k = "PyBytes zero_key"
      and self = "\<lparr>box_key = zero_key\<rparr>" and aself = "\<lparr>aead_key = zero_key\<rparr>"
      and p = test_message and a = header and w = example_world and w' = example_world,
      OF RawEncoder_roundtrip]
  have "fst (SecretBox_decrypt example_provider RawEncoder \<lparr>box_key = zero_key\<rparr>
            (combined m) None example_world) = Inr test_message"
    using t [of None m] m example_secretbox_roundtrip example_instances by simp
  moreover
  have "fst (Aead_decrypt example_provider RawEncoder \<lparr>aead_key = zero_key\<rparr>
            (combined am) header None example_world) = Inr test_message"
    using t [of "Some zero_nonce" _ am] am example_aead_roundtrip example_instances by simp
  ultimately show ?thesis
    using m am by blast
qed

section \<open>The associated data\<close>











end
